theory Spec2Isabelle
  imports Complex_Main
begin

section \<open>The quantum phase estimation template\<close>

text \<open>
  A shallow embedding of \<^verbatim>\<open>QuantumPhaseEstimation\<close> from
  \<^verbatim>\<open>pennylane/templates/subroutines/qpe.py\<close>.

  The template receives a matrix and two wire registers, checks that the registers
  share no wire, computes the powers of the matrix by repeated squaring, and queues
  one Hadamard and one controlled unitary per estimation wire, followed by the inverse
  quantum Fourier transform on the estimation register.
\<close>

subsection \<open>Data\<close>

text \<open>
  The matrix type is a parameter \<open>'u\<close>: the source only ever applies the matrix product
  \<^verbatim>\<open>@\<close> to it, which is \<open>(*)\<close> of the class \<open>times\<close> here. Square matrices of
  one fixed dimension are closed under the product, so the product never fails on them.
  Statements that speak of \<open>U\<close> raised to a power take \<open>'u\<close> in \<open>monoid_mult\<close>, where
  the product is associative with a unit, as the exact matrix product is.

  A wire is a label with equality and nothing else: the type parameter \<open>'w\<close>. A register
  (the \<^verbatim>\<open>Wires\<close> object that lines 109 and 110 build) is the list of its wires in
  iteration order. A \<^verbatim>\<open>Wires\<close> object holds each wire once; no statement below
  depends on that, so the lists are not restricted.
\<close>

text \<open>
  The operations that the template queues: \<^verbatim>\<open>qml.Hadamard(wire)\<close>,
  \<^verbatim>\<open>qml.ControlledQubitUnitary(u, control_wires=wire, wires=target_wires)\<close> and
  \<^verbatim>\<open>qml.QFT(wires=estimation_wires).inv()\<close>.
\<close>

datatype ('u, 'w) operation =
    Hadamard 'w
  | ControlledQubitUnitary 'u 'w "'w list"
  | QFT_inv "'w list"

text \<open>
  \<open>QuantumFunctionError\<close> is raised by line 113. \<open>IndexError\<close> is what Python raises
  when \<^verbatim>\<open>unitary_powers[0]\<close> reads an empty list. \<open>ValueError\<close> is what the
  constructor called on line 123 raises when it is given a matrix whose dimension does
  not fit the target register.
\<close>

datatype error = QuantumFunctionError | IndexError | ValueError

text \<open>
  The ambient recording context into which operations are queued as a side effect of
  constructing them. The field \<open>matmuls\<close> is a cost counter that the source does not
  have: it counts the matrix products evaluated so far.
\<close>

record ('u, 'w) recorder =
  queue :: "('u, 'w) operation list"
  matmuls :: nat

definition enqueue :: "('u, 'w) operation \<Rightarrow> ('u, 'w) recorder \<Rightarrow> ('u, 'w) recorder" where
  "enqueue op s = s\<lparr>queue := queue s @ [op]\<rparr>"

subsection \<open>Operations\<close>

text \<open>
  Modelled from the spec: \<^verbatim>\<open>Wires.shared_wires\<close> of \<^verbatim>\<open>pennylane.wires\<close> is not
  part of the source file. The spec calls its result the intersection of
  \<^verbatim>\<open>target_wires\<close> and \<^verbatim>\<open>estimation_wires\<close>: the wires of the first register that
  also occur in the second, in the order of the first.
\<close>

definition shared_wires :: "'w list \<Rightarrow> 'w list \<Rightarrow> 'w list" where
  "shared_wires target_wires estimation_wires =
     filter (\<lambda>w. w \<in> set estimation_wires) target_wires"

text \<open>
  Lines 117 to 119, the loop body run \<open>k\<close> more times on the list \<^verbatim>\<open>unitary_powers\<close>:
  \<^verbatim>\<open>
    new_power = unitary_powers[0] @ unitary_powers[0]
    unitary_powers.insert(0, new_power)
  \<close>
\<close>

fun ladder_loop ::
  "nat \<Rightarrow> ('u::times) list \<Rightarrow> ('u, 'w) recorder \<Rightarrow> (error + 'u list) \<times> ('u, 'w) recorder"
where
  "ladder_loop 0 unitary_powers s = (Inr unitary_powers, s)"
| "ladder_loop (Suc k) [] s = (Inl IndexError, s)"
| "ladder_loop (Suc k) (p # ps) s =
     ladder_loop k ((p * p) # p # ps) (s\<lparr>matmuls := Suc (matmuls s)\<rparr>)"

text \<open>
  Lines 115 to 119 for a register of \<open>n\<close> estimation wires. Python's
  \<^verbatim>\<open>range(n - 1)\<close> is empty when \<open>n - 1\<close> is not positive, so the loop runs
  \<open>nat (int n - 1)\<close> times.
\<close>

definition power_ladder ::
  "('u::times) \<Rightarrow> nat \<Rightarrow> ('u, 'w) recorder \<Rightarrow> (error + 'u list) \<times> ('u, 'w) recorder"
where
  "power_ladder unitary n s = ladder_loop (nat (int n - 1)) [unitary] s"

text \<open>
  Lines 121 to 123, over the pairs that \<^verbatim>\<open>zip(estimation_wires, unitary_powers)\<close>
  yields, for matrices that the constructor of line 123 accepts: every call of the
  constructor returns its operation. This is the template on the inputs of its contract,
  where the matrix has the dimension that the target register needs. The loop with the
  constructor's check written out is \<open>emit_loop_checked\<close> below.
\<close>

fun emit_loop ::
  "('w \<times> 'u) list \<Rightarrow> 'w list \<Rightarrow> ('u, 'w) recorder \<Rightarrow> ('u, 'w) recorder"
where
  "emit_loop [] target_wires s = s"
| "emit_loop ((wire, u) # rest) target_wires s =
     emit_loop rest target_wires
       (enqueue (ControlledQubitUnitary u wire target_wires) (enqueue (Hadamard wire) s))"

text \<open>
  The body of the template, lines 112 to 125, as a transformer of the context, for
  matrices that the constructor of line 123 accepts.
\<close>

definition QuantumPhaseEstimation ::
  "('u::times) \<Rightarrow> 'w list \<Rightarrow> 'w list \<Rightarrow> ('u, 'w) recorder
     \<Rightarrow> (error + unit) \<times> ('u, 'w) recorder"
where
  "QuantumPhaseEstimation unitary target_wires estimation_wires s =
     (if length (shared_wires target_wires estimation_wires) \<noteq> 0
      then (Inl QuantumFunctionError, s)
      else
        (case power_ladder unitary (length estimation_wires) s of
           (Inl e, s1) \<Rightarrow> (Inl e, s1)
         | (Inr unitary_powers, s1) \<Rightarrow>
             (Inr (),
              enqueue (QFT_inv estimation_wires)
                (emit_loop (zip estimation_wires unitary_powers) target_wires s1))))"

text \<open>
  Modelled from the spec: the decorator \<^verbatim>\<open>@template\<close> of
  \<^verbatim>\<open>pennylane.templates.decorator\<close> is not part of the source file. The spec gives the
  contract of the decorated function as
  \<^verbatim>\<open>build(unitary, target_wires, estimation_wires) -> ordered sequence of emitted operations\<close>:
  the body runs in a fresh context and the queue is the result.
\<close>

definition build :: "('u::times) \<Rightarrow> 'w list \<Rightarrow> 'w list \<Rightarrow> error + ('u, 'w) operation list" where
  "build unitary target_wires estimation_wires =
     (case QuantumPhaseEstimation unitary target_wires estimation_wires
             \<lparr>queue = [], matmuls = 0\<rparr> of
        (Inl e, s) \<Rightarrow> Inl e
      | (Inr u, s) \<Rightarrow> Inr (queue s))"

subsection \<open>The template with the check of the constructor\<close>

text \<open>
  Modelled from the spec: the constructor \<^verbatim>\<open>qml.ControlledQubitUnitary\<close> is not part
  of the source file. The spec states its precondition: the matrix dimension of the
  unitary must equal \<open>2 ^ len(target register)\<close>, and the reference leaves the check
  to what is called downstream. The constructor raises when the dimension differs and
  queues its operation otherwise. The dimension of a matrix (\<^verbatim>\<open>len(U)\<close>) is the
  parameter \<open>mdim\<close>.
\<close>

definition ControlledQubitUnitary_init ::
  "('u \<Rightarrow> nat) \<Rightarrow> 'u \<Rightarrow> 'w \<Rightarrow> 'w list \<Rightarrow> ('u, 'w) recorder
     \<Rightarrow> (error + unit) \<times> ('u, 'w) recorder"
where
  "ControlledQubitUnitary_init mdim u control_wires wires s =
     (if mdim u \<noteq> 2 ^ length wires
      then (Inl ValueError, s)
      else (Inr (), enqueue (ControlledQubitUnitary u control_wires wires) s))"

text \<open>
  Lines 121 to 123 with the constructor's check: the Hadamard of line 122 is queued
  before line 123 runs, and an exception raised on line 123 ends the loop with the
  Hadamard in the queue.
\<close>

fun emit_loop_checked ::
  "('u \<Rightarrow> nat) \<Rightarrow> ('w \<times> 'u) list \<Rightarrow> 'w list \<Rightarrow> ('u, 'w) recorder
     \<Rightarrow> (error + unit) \<times> ('u, 'w) recorder"
where
  "emit_loop_checked mdim [] target_wires s = (Inr (), s)"
| "emit_loop_checked mdim ((wire, u) # rest) target_wires s =
     (case ControlledQubitUnitary_init mdim u wire target_wires (enqueue (Hadamard wire) s) of
        (Inl e, s1) \<Rightarrow> (Inl e, s1)
      | (Inr x, s1) \<Rightarrow> emit_loop_checked mdim rest target_wires s1)"

text \<open>Lines 112 to 125 with the constructor's check.\<close>

definition QuantumPhaseEstimation_checked ::
  "('u \<Rightarrow> nat) \<Rightarrow> ('u::times) \<Rightarrow> 'w list \<Rightarrow> 'w list \<Rightarrow> ('u, 'w) recorder
     \<Rightarrow> (error + unit) \<times> ('u, 'w) recorder"
where
  "QuantumPhaseEstimation_checked mdim unitary target_wires estimation_wires s =
     (if length (shared_wires target_wires estimation_wires) \<noteq> 0
      then (Inl QuantumFunctionError, s)
      else
        (case power_ladder unitary (length estimation_wires) s of
           (Inl e, s1) \<Rightarrow> (Inl e, s1)
         | (Inr unitary_powers, s1) \<Rightarrow>
             (case emit_loop_checked mdim (zip estimation_wires unitary_powers) target_wires s1 of
                (Inl e, s2) \<Rightarrow> (Inl e, s2)
              | (Inr x, s2) \<Rightarrow> (Inr (), enqueue (QFT_inv estimation_wires) s2))))"

text \<open>The controlled unitaries among the queued operations.\<close>

fun is_controlled :: "('u, 'w) operation \<Rightarrow> bool" where
  "is_controlled (Hadamard w) = False"
| "is_controlled (ControlledQubitUnitary u w ws) = True"
| "is_controlled (QFT_inv ws) = False"

subsection \<open>A concrete matrix type: two by two matrices\<close>

text \<open>
  \<open>Mat2 a b c d\<close> is the matrix with rows \<open>(a, b)\<close> and \<open>(c, d)\<close>, with the matrix product.
\<close>

datatype 'a mat2 = Mat2 'a 'a 'a 'a

instantiation mat2 :: (semiring_1) monoid_mult
begin

fun times_mat2 :: "'a mat2 \<Rightarrow> 'a mat2 \<Rightarrow> 'a mat2" where
  "times_mat2 (Mat2 a b c d) (Mat2 e f g h) =
     Mat2 (a * e + b * g) (a * f + b * h) (c * e + d * g) (c * f + d * h)"

definition one_mat2 :: "'a mat2" where
  "one_mat2 = Mat2 1 0 0 1"

instance
proof
  fix x y z :: "'a mat2"
  show "x * y * z = x * (y * z)"
    by (cases x; cases y; cases z) (simp add: algebra_simps)
  show "1 * x = x"
    by (cases x) (simp add: one_mat2_def)
  show "x * 1 = x"
    by (cases x) (simp add: one_mat2_def)
qed

end

text \<open>The phase gate \<open>S\<close>, with eigenvalues \<open>1\<close> and \<open>\<i>\<close>, and the Pauli matrix \<open>Z\<close>.\<close>

definition S_gate :: "complex mat2" where
  "S_gate = Mat2 1 0 0 \<i>"

definition Z_gate :: "complex mat2" where
  "Z_gate = Mat2 1 0 0 (- 1)"

text \<open>A two by two matrix has two rows.\<close>

definition dim_mat2 :: "'a mat2 \<Rightarrow> nat" where
  "dim_mat2 m = 2"

subsection \<open>The sequence that the spec describes\<close>

text \<open>
  The spec's words, to be compared with what the source computes: the power ladder has
  one entry per estimation wire, entry \<open>i\<close> being \<open>U\<close> raised to \<open>2 ^ (n - 1 - i)\<close>; the
  emitted sequence has, for each estimation wire in order, a Hadamard on the wire and
  then the controlled application of its power, and the inverse transform at the end.
\<close>

definition spec_ladder :: "('u::monoid_mult) \<Rightarrow> nat \<Rightarrow> 'u list" where
  "spec_ladder U n = map (\<lambda>i. U ^ (2 ^ (n - 1 - i))) [0..<n]"

definition spec_sequence :: "('u::monoid_mult) \<Rightarrow> 'w list \<Rightarrow> 'w list \<Rightarrow> ('u, 'w) operation list" where
  "spec_sequence U tw ew =
     concat (map (\<lambda>i. [Hadamard (ew ! i),
                        ControlledQubitUnitary (U ^ (2 ^ (length ew - 1 - i))) (ew ! i) tw])
               [0..<length ew])
     @ [QFT_inv ew]"

text \<open>
  The same sequence with the matrices written as iterated squares of \<open>U\<close>, which needs
  nothing of the product: it is what the source computes for any \<open>(*)\<close>.
\<close>

definition squares_sequence :: "('u::times) \<Rightarrow> 'w list \<Rightarrow> 'w list \<Rightarrow> ('u, 'w) operation list" where
  "squares_sequence U tw ew =
     concat (map (\<lambda>i. [Hadamard (ew ! i),
                        ControlledQubitUnitary (((\<lambda>x. x * x) ^^ (length ew - 1 - i)) U) (ew ! i) tw])
               [0..<length ew])
     @ [QFT_inv ew]"

section \<open>Properties\<close>

subsection \<open>The loops\<close>

text \<open>
  Started on the squares \<open>U\<close>, \<open>U\<^sup>2\<close>, up to the \<open>m\<close>-fold square (largest first), \<open>k\<close> more
  rounds of the loop give the squares up to the \<open>(m + k)\<close>-fold one and cost \<open>k\<close> products.
\<close>

lemma ladder_loop_squares:
  "ladder_loop k (map (\<lambda>j. ((\<lambda>x. x * x) ^^ j) U) (rev [0..<Suc m])) s =
     (Inr (map (\<lambda>j. ((\<lambda>x. x * x) ^^ j) U) (rev [0..<Suc (m + k)])),
      s\<lparr>matmuls := matmuls s + k\<rparr>)"
proof (induction k arbitrary: m s)
  case 0
  show ?case by simp
next
  case (Suc k)
  have "ladder_loop (Suc k) (map (\<lambda>j. ((\<lambda>x. x * x) ^^ j) U) (rev [0..<Suc m])) s =
        ladder_loop k (map (\<lambda>j. ((\<lambda>x. x * x) ^^ j) U) (rev [0..<Suc (Suc m)]))
          (s\<lparr>matmuls := Suc (matmuls s)\<rparr>)"
    by simp
  also have "\<dots> = (Inr (map (\<lambda>j. ((\<lambda>x. x * x) ^^ j) U) (rev [0..<Suc (Suc m + k)])),
      s\<lparr>matmuls := Suc (matmuls s)\<rparr>\<lparr>matmuls := matmuls (s\<lparr>matmuls := Suc (matmuls s)\<rparr>) + k\<rparr>)"
    by (rule Suc.IH)
  finally show ?case by simp
qed

lemma squares_power:
  fixes U :: "'u::monoid_mult"
  shows "((\<lambda>x. x * x) ^^ j) U = U ^ (2 ^ j)"
proof (induction j)
  case 0
  show ?case by simp
next
  case (Suc j)
  have "((\<lambda>x. x * x) ^^ Suc j) U = U ^ (2 ^ j) * U ^ (2 ^ j)"
    using Suc.IH by simp
  also have "\<dots> = U ^ (2 ^ j + 2 ^ j)"
    by (simp add: power_add)
  also have "(2::nat) ^ j + 2 ^ j = 2 ^ Suc j"
    by simp
  finally show ?case .
qed

lemma power_ladder_squares:
  "power_ladder U n s =
     (Inr (map (\<lambda>j. ((\<lambda>x. x * x) ^^ j) U) (rev [0..<max 1 n])),
      s\<lparr>matmuls := matmuls s + (n - 1)\<rparr>)"
proof -
  have k: "nat (int n - 1) = n - 1"
    by simp
  have m: "Suc (0 + (n - 1)) = max 1 n"
    by simp
  have "power_ladder U n s =
        ladder_loop (n - 1) (map (\<lambda>j. ((\<lambda>x. x * x) ^^ j) U) (rev [0..<Suc 0])) s"
    by (simp add: power_ladder_def k)
  also have "\<dots> = (Inr (map (\<lambda>j. ((\<lambda>x. x * x) ^^ j) U) (rev [0..<Suc (0 + (n - 1))])),
      s\<lparr>matmuls := matmuls s + (n - 1)\<rparr>)"
    by (rule ladder_loop_squares)
  finally show ?thesis
    unfolding m .
qed

lemma emit_loop_queue:
  "emit_loop ps tw s =
     s\<lparr>queue := queue s @
         concat (map (\<lambda>(w, u). [Hadamard w, ControlledQubitUnitary u w tw]) ps)\<rparr>"
proof (induction ps arbitrary: s)
  case Nil
  show ?case by simp
next
  case (Cons p ps)
  obtain w u where p: "p = (w, u)" by (cases p)
  show ?case
    unfolding p by (simp add: Cons.IH enqueue_def)
qed

lemma shared_wires_empty_iff:
  "shared_wires tw ew = [] \<longleftrightarrow> set tw \<inter> set ew = {}"
  by (auto simp add: shared_wires_def filter_empty_conv)

text \<open>
  \<^verbatim>\<open>zip\<close> stops at the shorter list: an empty register is paired with nothing, although
  the ladder then still holds one matrix.
\<close>

lemma zip_ladder:
  "zip ew (map f (rev [0..<max 1 (length ew)])) =
     map (\<lambda>i. (ew ! i, f (length ew - 1 - i))) [0..<length ew]"
proof (cases "ew = []")
  case True
  then show ?thesis by simp
next
  case False
  then have n: "max 1 (length ew) = length ew"
    by (cases ew) simp_all
  show ?thesis
    unfolding n
  proof (rule nth_equalityI)
    show "length (zip ew (map f (rev [0..<length ew]))) =
          length (map (\<lambda>i. (ew ! i, f (length ew - 1 - i))) [0..<length ew])"
      by simp
  next
    fix i
    assume "i < length (zip ew (map f (rev [0..<length ew])))"
    then have i: "i < length ew" by simp
    then have "rev [0..<length ew] ! i = length ew - 1 - i"
      by (simp add: rev_nth)
    with i show "zip ew (map f (rev [0..<length ew])) ! i =
          map (\<lambda>i. (ew ! i, f (length ew - 1 - i))) [0..<length ew] ! i"
      by simp
  qed
qed

subsection \<open>The template on overlapping and on disjoint registers\<close>

lemma QuantumPhaseEstimation_overlap:
  assumes "set tw \<inter> set ew \<noteq> {}"
  shows "QuantumPhaseEstimation U tw ew s = (Inl QuantumFunctionError, s)"
  using assms by (simp add: QuantumPhaseEstimation_def shared_wires_empty_iff)

lemma QuantumPhaseEstimation_squares:
  assumes "set tw \<inter> set ew = {}"
  shows "QuantumPhaseEstimation U tw ew s =
           (Inr (), s\<lparr>queue := queue s @ squares_sequence U tw ew,
                      matmuls := matmuls s + (length ew - 1)\<rparr>)"
proof -
  have pairs: "concat (map (\<lambda>(w, u). [Hadamard w, ControlledQubitUnitary u w tw])
                  (zip ew (map (\<lambda>j. ((\<lambda>x. x * x) ^^ j) U) (rev [0..<max 1 (length ew)])))) @
               [QFT_inv ew] = squares_sequence U tw ew"
    unfolding zip_ladder squares_sequence_def by (simp add: comp_def)
  have "QuantumPhaseEstimation U tw ew s =
          (Inr (), enqueue (QFT_inv ew)
             (emit_loop (zip ew (map (\<lambda>j. ((\<lambda>x. x * x) ^^ j) U) (rev [0..<max 1 (length ew)])))
                tw (s\<lparr>matmuls := matmuls s + (length ew - 1)\<rparr>)))"
    using assms
    by (simp add: QuantumPhaseEstimation_def shared_wires_empty_iff power_ladder_squares)
  also have "\<dots> = (Inr (), s\<lparr>queue := queue s @ squares_sequence U tw ew,
                      matmuls := matmuls s + (length ew - 1)\<rparr>)"
    unfolding emit_loop_queue enqueue_def using pairs by simp
  finally show ?thesis .
qed

lemma squares_sequence_power:
  fixes U :: "'u::monoid_mult"
  shows "squares_sequence U tw ew = spec_sequence U tw ew"
  by (simp add: squares_sequence_def spec_sequence_def squares_power)

lemma QuantumPhaseEstimation_disjoint:
  fixes U :: "'u::monoid_mult"
  assumes "set tw \<inter> set ew = {}"
  shows "QuantumPhaseEstimation U tw ew s =
           (Inr (), s\<lparr>queue := queue s @ spec_sequence U tw ew,
                      matmuls := matmuls s + (length ew - 1)\<rparr>)"
  using QuantumPhaseEstimation_squares[OF assms, of U s]
  by (simp add: squares_sequence_power)

lemma length_squares_sequence:
  "length (squares_sequence U tw ew) = 2 * length ew + 1"
  by (simp add: squares_sequence_def length_concat comp_def sum_list_triv)

lemma build_overlap:
  assumes "set tw \<inter> set ew \<noteq> {}"
  shows "build U tw ew = Inl QuantumFunctionError"
  by (simp add: build_def QuantumPhaseEstimation_overlap[OF assms])

lemma build_disjoint:
  fixes U :: "'u::monoid_mult"
  assumes "set tw \<inter> set ew = {}"
  shows "build U tw ew = Inr (spec_sequence U tw ew)"
  by (simp add: build_def QuantumPhaseEstimation_disjoint[OF assms])

lemma length_spec_sequence:
  "length (spec_sequence U tw ew) = 2 * length ew + 1"
  by (simp add: spec_sequence_def length_concat comp_def sum_list_triv)

lemma controlled_spec_sequence:
  "filter is_controlled (spec_sequence U tw ew) =
     map (\<lambda>i. ControlledQubitUnitary (U ^ (2 ^ (length ew - 1 - i))) (ew ! i) tw) [0..<length ew]"
  by (simp add: spec_sequence_def filter_concat comp_def)

lemma build_squares:
  assumes "set tw \<inter> set ew = {}"
  shows "build U tw ew = Inr (squares_sequence U tw ew)"
  by (simp add: build_def QuantumPhaseEstimation_squares[OF assms])

subsection \<open>Powers of the phase gate\<close>

lemma S_gate_powers:
  "S_gate ^ 2 = Z_gate" "S_gate ^ 4 = 1" "S_gate * S_gate = Z_gate" "Z_gate * Z_gate = 1"
  by (simp_all add: S_gate_def Z_gate_def one_mat2_def power2_eq_square power4_eq_xxxx)

subsection \<open>Each entry of the ladder is the square of the next\<close>

lemma squares_nth:
  assumes "Suc i < n"
  shows "map (\<lambda>j. ((\<lambda>x. x * x) ^^ j) U) (rev [0..<n]) ! i =
         map (\<lambda>j. ((\<lambda>x. x * x) ^^ j) U) (rev [0..<n]) ! Suc i *
         map (\<lambda>j. ((\<lambda>x. x * x) ^^ j) U) (rev [0..<n]) ! Suc i"
proof -
  from assms have i: "i < n" by simp
  have a: "rev [0..<n] ! i = n - Suc i"
    using i by (simp add: rev_nth)
  have b: "rev [0..<n] ! Suc i = n - Suc (Suc i)"
    using assms by (simp add: rev_nth)
  have c: "n - Suc i = Suc (n - Suc (Suc i))"
    using assms by simp
  show ?thesis
    using assms i by (simp add: a b) (simp add: c)
qed

subsection \<open>The ladder in terms of powers\<close>

text \<open>
  For at least one estimation wire, the ladder of the source is the ladder of the spec:
  entry \<open>i\<close> is \<open>U\<close> raised to \<open>2 ^ (n - 1 - i)\<close>.
\<close>

lemma power_ladder_spec:
  fixes U :: "'u::monoid_mult"
  assumes "1 \<le> n"
  shows "fst (power_ladder U n s) = Inr (spec_ladder U n)"
proof -
  from assms have n: "max 1 n = n" by simp
  have "map (\<lambda>j. U ^ (2 ^ j)) (rev [0..<n]) = spec_ladder U n"
    unfolding spec_ladder_def
  proof (rule nth_equalityI)
    show "length (map (\<lambda>j. U ^ (2 ^ j)) (rev [0..<n])) =
          length (map (\<lambda>i. U ^ (2 ^ (n - 1 - i))) [0..<n])"
      by simp
  next
    fix i
    assume "i < length (map (\<lambda>j. U ^ (2 ^ j)) (rev [0..<n]))"
    then have i: "i < n" by simp
    then show "map (\<lambda>j. U ^ (2 ^ j)) (rev [0..<n]) ! i =
               map (\<lambda>i. U ^ (2 ^ (n - 1 - i))) [0..<n] ! i"
      by (simp add: rev_nth)
  qed
  then show ?thesis
    using power_ladder_squares[of U n s] unfolding n squares_power by simp
qed

subsection \<open>The sequence for the identity matrix\<close>

lemma spec_sequence_one:
  "spec_sequence (1::'u::monoid_mult) tw ew =
     concat (map (\<lambda>w. [Hadamard w, ControlledQubitUnitary 1 w tw]) ew) @ [QFT_inv ew]"
proof -
  have "map (\<lambda>i. [Hadamard (ew ! i), ControlledQubitUnitary (1::'u) (ew ! i) tw]) [0..<length ew] =
        map (\<lambda>w. [Hadamard w, ControlledQubitUnitary 1 w tw]) (map ((!) ew) [0..<length ew])"
    by simp
  also have "\<dots> = map (\<lambda>w. [Hadamard w, ControlledQubitUnitary 1 w tw]) ew"
    by (simp only: map_nth)
  finally show ?thesis
    by (simp add: spec_sequence_def)
qed

lemma filter_pairs:
  "filter (\<lambda>op. \<not> is_controlled op)
     (concat (map (\<lambda>w. [Hadamard w, ControlledQubitUnitary u w tw]) ew)) = map Hadamard ew"
  by (induction ew) simp_all

subsection \<open>Outcomes of the template with the check of the constructor\<close>

text \<open>
  Squaring keeps the dimension, so every matrix of the ladder has the dimension of the
  unitary. When the constructor accepts every matrix the checked loop is the loop
  \<open>emit_loop\<close>; when it refuses the first one, the loop ends with one Hadamard queued.
  On the inputs where the dimension fits, the checked template and
  \<open>QuantumPhaseEstimation\<close> are the same function.
\<close>

lemma dim_squares:
  assumes "\<And>x. mdim (x * x) = mdim x"
  shows "mdim (((\<lambda>x. x * x) ^^ j) U) = mdim U"
  by (induction j) (simp_all add: assms)

lemma emit_loop_checked_accepted:
  assumes "\<forall>p \<in> set ps. mdim (snd p) = 2 ^ length tw"
  shows "emit_loop_checked mdim ps tw s = (Inr (), emit_loop ps tw s)"
  using assms
proof (induction ps arbitrary: s)
  case Nil
  show ?case by simp
next
  case (Cons p ps)
  obtain w u where p: "p = (w, u)" by (cases p)
  from Cons.prems have u: "mdim u = 2 ^ length tw" and rest: "\<forall>p \<in> set ps. mdim (snd p) = 2 ^ length tw"
    by (simp_all add: p)
  show ?case
    unfolding p by (simp add: ControlledQubitUnitary_init_def u Cons.IH[OF rest])
qed

lemma emit_loop_checked_refused:
  assumes "mdim u \<noteq> 2 ^ length tw"
  shows "emit_loop_checked mdim ((w, u) # rest) tw s = (Inl ValueError, enqueue (Hadamard w) s)"
  using assms by (simp add: ControlledQubitUnitary_init_def)

lemma QuantumPhaseEstimation_checked_overlap:
  assumes "set tw \<inter> set ew \<noteq> {}"
  shows "QuantumPhaseEstimation_checked mdim U tw ew s = (Inl QuantumFunctionError, s)"
  using assms by (simp add: QuantumPhaseEstimation_checked_def shared_wires_empty_iff)

lemma QuantumPhaseEstimation_checked_ladder:
  assumes "set tw \<inter> set ew = {}"
  shows "QuantumPhaseEstimation_checked mdim U tw ew s =
           (case emit_loop_checked mdim
                   (map (\<lambda>i. (ew ! i, ((\<lambda>x. x * x) ^^ (length ew - 1 - i)) U)) [0..<length ew])
                   tw (s\<lparr>matmuls := matmuls s + (length ew - 1)\<rparr>) of
              (Inl e, s2) \<Rightarrow> (Inl e, s2)
            | (Inr x, s2) \<Rightarrow> (Inr (), enqueue (QFT_inv ew) s2))"
proof -
  have "QuantumPhaseEstimation_checked mdim U tw ew s =
          (case emit_loop_checked mdim
                  (zip ew (map (\<lambda>j. ((\<lambda>x. x * x) ^^ j) U) (rev [0..<max 1 (length ew)])))
                  tw (s\<lparr>matmuls := matmuls s + (length ew - 1)\<rparr>) of
             (Inl e, s2) \<Rightarrow> (Inl e, s2)
           | (Inr x, s2) \<Rightarrow> (Inr (), enqueue (QFT_inv ew) s2))"
    using assms
    by (simp add: QuantumPhaseEstimation_checked_def shared_wires_empty_iff power_ladder_squares)
  then show ?thesis
    unfolding zip_ladder .
qed

lemma QuantumPhaseEstimation_checked_accepted:
  assumes sq: "\<And>x. mdim (x * x) = mdim x"
    and disj: "set tw \<inter> set ew = {}"
    and fit: "ew = [] \<or> mdim U = 2 ^ length tw"
  shows "QuantumPhaseEstimation_checked mdim U tw ew s =
           (Inr (), s\<lparr>queue := queue s @ squares_sequence U tw ew,
                      matmuls := matmuls s + (length ew - 1)\<rparr>)"
proof -
  let ?ps = "map (\<lambda>i. (ew ! i, ((\<lambda>x. x * x) ^^ (length ew - 1 - i)) U)) [0..<length ew]"
  have "\<forall>p \<in> set ?ps. mdim (snd p) = 2 ^ length tw"
  proof (cases "ew = []")
    case True
    then show ?thesis by simp
  next
    case False
    with fit have "mdim U = 2 ^ length tw" by simp
    then show ?thesis
      by (simp add: dim_squares[where mdim = mdim, OF sq])
  qed
  then have "emit_loop_checked mdim ?ps tw (s\<lparr>matmuls := matmuls s + (length ew - 1)\<rparr>) =
             (Inr (), emit_loop ?ps tw (s\<lparr>matmuls := matmuls s + (length ew - 1)\<rparr>))"
    by (rule emit_loop_checked_accepted)
  then have "QuantumPhaseEstimation_checked mdim U tw ew s =
             (Inr (), enqueue (QFT_inv ew)
                (emit_loop ?ps tw (s\<lparr>matmuls := matmuls s + (length ew - 1)\<rparr>)))"
    by (simp add: QuantumPhaseEstimation_checked_ladder[OF disj])
  also have "\<dots> = (Inr (), s\<lparr>queue := queue s @ squares_sequence U tw ew,
                      matmuls := matmuls s + (length ew - 1)\<rparr>)"
    unfolding emit_loop_queue enqueue_def squares_sequence_def by (simp add: comp_def)
  finally show ?thesis .
qed

lemma QuantumPhaseEstimation_checked_refused:
  assumes sq: "\<And>x. mdim (x * x) = mdim x"
    and disj: "set tw \<inter> set ew = {}"
    and ne: "ew \<noteq> []"
    and misfit: "mdim U \<noteq> 2 ^ length tw"
  shows "QuantumPhaseEstimation_checked mdim U tw ew s =
           (Inl ValueError, s\<lparr>queue := queue s @ [Hadamard (hd ew)],
                               matmuls := matmuls s + (length ew - 1)\<rparr>)"
proof -
  let ?f = "\<lambda>i. (ew ! i, ((\<lambda>x. x * x) ^^ (length ew - 1 - i)) U)"
  from ne have pos: "0 < length ew" by simp
  then have "map ?f [0..<length ew] = ?f 0 # map ?f [Suc 0..<length ew]"
    by (simp add: upt_conv_Cons)
  moreover have "ew ! 0 = hd ew"
    using ne by (simp add: hd_conv_nth)
  ultimately have ps: "map ?f [0..<length ew] =
      (hd ew, ((\<lambda>x. x * x) ^^ (length ew - 1)) U) # map ?f [Suc 0..<length ew]"
    by simp
  have "mdim (((\<lambda>x. x * x) ^^ (length ew - 1)) U) \<noteq> 2 ^ length tw"
    using misfit by (simp add: dim_squares[where mdim = mdim, OF sq])
  then have "emit_loop_checked mdim (map ?f [0..<length ew]) tw
               (s\<lparr>matmuls := matmuls s + (length ew - 1)\<rparr>) =
             (Inl ValueError, enqueue (Hadamard (hd ew))
               (s\<lparr>matmuls := matmuls s + (length ew - 1)\<rparr>))"
    unfolding ps by (rule emit_loop_checked_refused)
  then show ?thesis
    by (simp add: QuantumPhaseEstimation_checked_ladder[OF disj] enqueue_def)
qed

lemma QuantumPhaseEstimation_checked_agrees:
  assumes "\<And>x. mdim (x * x) = mdim x" and "ew = [] \<or> mdim U = 2 ^ length tw"
  shows "QuantumPhaseEstimation_checked mdim U tw ew s = QuantumPhaseEstimation U tw ew s"
proof (cases "set tw \<inter> set ew = {}")
  case True
  then show ?thesis
    using QuantumPhaseEstimation_checked_accepted[OF assms(1) True assms(2), of s]
    by (simp add: QuantumPhaseEstimation_squares)
next
  case False
  then show ?thesis
    by (simp add: QuantumPhaseEstimation_checked_overlap QuantumPhaseEstimation_overlap)
qed

section \<open>The claims\<close>

text \<open>
  C1. For every unitary \<open>U\<close> and every estimation register of size \<open>n\<close> that shares no wire
  with the target register, the \<open>i\<close>-th controlled unitary that the template emits
  (counted from 0, \<open>i < n\<close>) carries \<open>U\<close> raised to \<open>2 ^ (n - 1 - i)\<close>, is controlled on the
  \<open>i\<close>-th estimation wire and acts on the whole target register. The first estimation
  wire gets \<open>U\<close> raised to \<open>2 ^ (n - 1)\<close>, the last one gets \<open>U\<close> itself. There are exactly
  \<open>n\<close> controlled unitaries. The statement does not need the target register to be
  non-empty; \<open>i < n\<close> makes the estimation register non-empty.
\<close>

theorem controlled_power_of_wire:
  fixes U :: "'u::monoid_mult"
  assumes "set tw \<inter> set ew = {}" and "i < length ew"
  shows "\<exists>ops. build U tw ew = Inr ops
           \<and> length (filter is_controlled ops) = length ew
           \<and> filter is_controlled ops ! i =
               ControlledQubitUnitary (U ^ (2 ^ (length ew - 1 - i))) (ew ! i) tw
           \<and> filter is_controlled ops ! 0 =
               ControlledQubitUnitary (U ^ (2 ^ (length ew - 1))) (hd ew) tw
           \<and> filter is_controlled ops ! (length ew - 1) =
               ControlledQubitUnitary (U ^ 1) (last ew) tw"
proof -
  from assms(2) have ne: "ew \<noteq> []" by auto
  let ?cs = "filter is_controlled (spec_sequence U tw ew)"
  have cs: "?cs = map (\<lambda>i. ControlledQubitUnitary (U ^ (2 ^ (length ew - 1 - i))) (ew ! i) tw)
                    [0..<length ew]"
    by (rule controlled_spec_sequence)
  have "length ?cs = length ew"
    unfolding cs by simp
  moreover have "?cs ! i = ControlledQubitUnitary (U ^ (2 ^ (length ew - 1 - i))) (ew ! i) tw"
    unfolding cs using assms(2) by simp
  moreover have "?cs ! 0 = ControlledQubitUnitary (U ^ (2 ^ (length ew - 1))) (hd ew) tw"
    unfolding cs using ne by (simp add: hd_conv_nth)
  moreover have "?cs ! (length ew - 1) = ControlledQubitUnitary (U ^ 1) (last ew) tw"
    unfolding cs using ne by (simp add: last_conv_nth)
  ultimately show ?thesis
    using build_disjoint[OF assms(1), of U] by blast
qed

text \<open>
  At the phase gate, target register \<open>[0]\<close> and estimation register \<open>[1, 2, 3]\<close>: the wires
  1, 2 and 3 get the fourth power (the identity), the square (\<open>Z\<close>) and \<open>S\<close> itself.
\<close>

theorem controlled_power_of_wire_witness:
  "set [0::nat] \<inter> set [1, 2, 3] = {} \<and> (1::nat) < length [1::nat, 2, 3] \<and>
   (\<exists>ops. build S_gate [0::nat] [1, 2, 3] = Inr ops
      \<and> length (filter is_controlled ops) = 3
      \<and> filter is_controlled ops ! 1 = ControlledQubitUnitary Z_gate 2 [0]
      \<and> filter is_controlled ops ! 0 = ControlledQubitUnitary 1 1 [0]
      \<and> filter is_controlled ops ! 2 = ControlledQubitUnitary S_gate 3 [0])"
  using controlled_power_of_wire
          [where U = S_gate and tw = "[0::nat]" and ew = "[1::nat, 2, 3]" and i = 1]
  apply (simp add: S_gate_powers)
  apply (simp add: numeral_2_eq_2 numeral_3_eq_3)
  done

text \<open>
  C2. When the two registers share a wire, the template fails with the error of line 113
  (\<open>QuantumFunctionError\<close>; the spec calls it a configuration error) and leaves the
  context as it was: nothing is queued and no matrix product has been evaluated, since
  the counter \<open>matmuls\<close> is unchanged. When the registers share no wire, no error is
  raised.
\<close>

theorem overlap_check:
  fixes U :: "'u::times"
  shows "(set tw \<inter> set ew \<noteq> {} \<longrightarrow>
            QuantumPhaseEstimation U tw ew s = (Inl QuantumFunctionError, s)
            \<and> build U tw ew = Inl QuantumFunctionError)
       \<and> (set tw \<inter> set ew = {} \<longrightarrow>
            fst (QuantumPhaseEstimation U tw ew s) = Inr ()
            \<and> (\<exists>ops. build U tw ew = Inr ops))"
proof (intro conjI impI)
  assume "set tw \<inter> set ew \<noteq> {}"
  then show "QuantumPhaseEstimation U tw ew s = (Inl QuantumFunctionError, s)"
    by (rule QuantumPhaseEstimation_overlap)
next
  assume "set tw \<inter> set ew \<noteq> {}"
  then show "build U tw ew = Inl QuantumFunctionError"
    by (rule build_overlap)
next
  assume "set tw \<inter> set ew = {}"
  then show "fst (QuantumPhaseEstimation U tw ew s) = Inr ()"
    by (simp add: QuantumPhaseEstimation_squares)
next
  assume "set tw \<inter> set ew = {}"
  then show "\<exists>ops. build U tw ew = Inr ops"
    by (simp add: build_squares)
qed

text \<open>
  The registers \<open>[0, 1]\<close> and \<open>[1, 2]\<close> share wire 1; \<open>[0]\<close> and \<open>[1, 2]\<close> share none.
\<close>

theorem overlap_check_witness:
  "set [0::nat, 1] \<inter> set [1, 2] \<noteq> {}
   \<and> QuantumPhaseEstimation S_gate [0::nat, 1] [1, 2] \<lparr>queue = [], matmuls = 0\<rparr> =
       (Inl QuantumFunctionError, \<lparr>queue = [], matmuls = 0\<rparr>)
   \<and> build S_gate [0::nat, 1] [1, 2] = Inl QuantumFunctionError
   \<and> set [0::nat] \<inter> set [1, 2] = {}
   \<and> fst (QuantumPhaseEstimation S_gate [0::nat] [1, 2] \<lparr>queue = [], matmuls = 0\<rparr>) = Inr ()
   \<and> (\<exists>ops. build S_gate [0::nat] [1, 2] = Inr ops)"
  using overlap_check[where U = S_gate and tw = "[0::nat, 1]" and ew = "[1::nat, 2]"
                        and s = "\<lparr>queue = [], matmuls = 0\<rparr>"]
        overlap_check[where U = S_gate and tw = "[0::nat]" and ew = "[1::nat, 2]"
                        and s = "\<lparr>queue = [], matmuls = 0\<rparr>"]
  by simp

text \<open>
  C3. On a non-empty estimation register that shares no wire with the target register,
  the emitted sequence is the one the spec describes: for each estimation wire in the
  given order a Hadamard on it, directly followed by the controlled application of its
  power with that wire as control and the whole target register as targets, and at the
  end one inverse Fourier transform on the estimation register in the given order. Its
  length is \<open>2 * n + 1\<close>.
\<close>

theorem emitted_sequence:
  fixes U :: "'u::monoid_mult"
  assumes "ew \<noteq> []" and "set tw \<inter> set ew = {}"
  shows "build U tw ew = Inr (spec_sequence U tw ew)
       \<and> length (spec_sequence U tw ew) = 2 * length ew + 1"
  using build_disjoint[OF assms(2), of U] length_spec_sequence[of U tw ew] by simp

text \<open>The sequence for the phase gate on target \<open>[0]\<close> and estimation wires \<open>[1, 2]\<close>.\<close>

theorem emitted_sequence_witness:
  "[1::nat, 2] \<noteq> [] \<and> set [0::nat] \<inter> set [1, 2] = {}
   \<and> build S_gate [0::nat] [1, 2] =
       Inr [Hadamard 1, ControlledQubitUnitary Z_gate 1 [0],
            Hadamard 2, ControlledQubitUnitary S_gate 2 [0],
            QFT_inv [1, 2]]
   \<and> length (spec_sequence S_gate [0::nat] [1::nat, 2]) = 5"
  using emitted_sequence[where U = S_gate and tw = "[0::nat]" and ew = "[1::nat, 2]"]
  by (simp add: spec_sequence_def S_gate_powers)

text \<open>
  C4, as stated, says that the ladder has \<open>n\<close> entries for every \<open>n\<close>, also for \<open>n = 0\<close>.
  Line 115 starts the ladder with the unitary itself, so for \<open>n = 0\<close> the ladder has one
  entry, not none.
\<close>

theorem ladder_length_counterexample:
  "fst (power_ladder S_gate 0 \<lparr>queue = ([] :: (complex mat2, nat) operation list), matmuls = 0\<rparr>)
     = Inr [S_gate]
   \<and> length [S_gate] \<noteq> (0::nat)"
  by (simp add: power_ladder_def)

text \<open>
  C4, amended. For \<open>n \<ge> 1\<close> the ladder computed by lines 115 to 119 has exactly \<open>n\<close>
  entries, one per estimation wire; for \<open>n = 0\<close> it has one entry. The loop never fails.
\<close>

theorem ladder_length:
  fixes U :: "'u::times"
  shows "\<exists>ps. fst (power_ladder U n s) = Inr ps \<and> length ps = (if n = 0 then 1 else n)"
  by (simp add: power_ladder_squares)

text \<open>The ladder for three estimation wires and for none.\<close>

theorem ladder_length_witness:
  "(\<exists>ps. fst (power_ladder S_gate 3 \<lparr>queue = ([] :: (complex mat2, nat) operation list), matmuls = 0\<rparr>)
         = Inr ps \<and> length ps = 3)
   \<and> (\<exists>ps. fst (power_ladder S_gate 0 \<lparr>queue = ([] :: (complex mat2, nat) operation list), matmuls = 0\<rparr>)
         = Inr ps \<and> length ps = 1)"
  using ladder_length[where U = S_gate and n = 3
          and s = "\<lparr>queue = ([] :: (complex mat2, nat) operation list), matmuls = 0\<rparr>"]
        ladder_length[where U = S_gate and n = 0
          and s = "\<lparr>queue = ([] :: (complex mat2, nat) operation list), matmuls = 0\<rparr>"]
  by simp

text \<open>
  C6, as stated, says that a failing call never leaves a partial sequence behind. The
  template validates the registers only. The dimension of the matrix is first looked
  at by the constructor of the controlled unitary on line 123, after line 122 has queued
  the Hadamard of the first estimation wire. For the two by two phase gate, the target
  register \<open>[0, 3]\<close> (which needs a four by four matrix) and the estimation register
  \<open>[1, 2]\<close>, the call fails and leaves one Hadamard in the queue: neither nothing nor
  the five operations of the full sequence.
\<close>

theorem partial_emission_counterexample:
  "QuantumPhaseEstimation_checked dim_mat2 S_gate [0::nat, 3] [1, 2] \<lparr>queue = [], matmuls = 0\<rparr> =
     (Inl ValueError, \<lparr>queue = [Hadamard 1], matmuls = 1\<rparr>)
   \<and> [Hadamard (1::nat) :: (complex mat2, nat) operation] \<noteq> []
   \<and> length [Hadamard (1::nat) :: (complex mat2, nat) operation] \<noteq> 2 * length [1::nat, 2] + 1"
  by (simp add: QuantumPhaseEstimation_checked_def shared_wires_def power_ladder_def
        ControlledQubitUnitary_init_def dim_mat2_def enqueue_def)

text \<open>
  C6, amended. The check that the registers share no wire comes first, before any matrix
  product and before anything is queued: when it fails, the context is untouched. When
  the registers share no wire and the matrix has the dimension that the target register
  needs (or there is no estimation wire), the call succeeds and has appended the full
  sequence of \<open>2 * n + 1\<close> operations. The dimension is not validated at the start: when
  it does not fit and there is an estimation wire, the call fails at the first controlled
  unitary, with the Hadamard of the first estimation wire already queued. These three
  cases cover every input.
\<close>

theorem checked_outcomes:
  fixes U :: "'u::times"
  assumes "\<And>x. mdim (x * x) = mdim x"
  shows "(set tw \<inter> set ew \<noteq> {} \<longrightarrow>
            QuantumPhaseEstimation_checked mdim U tw ew s = (Inl QuantumFunctionError, s))
       \<and> (set tw \<inter> set ew = {} \<and> (ew = [] \<or> mdim U = 2 ^ length tw) \<longrightarrow>
            QuantumPhaseEstimation_checked mdim U tw ew s =
              (Inr (), s\<lparr>queue := queue s @ squares_sequence U tw ew,
                         matmuls := matmuls s + (length ew - 1)\<rparr>))
       \<and> (set tw \<inter> set ew = {} \<and> ew \<noteq> [] \<and> mdim U \<noteq> 2 ^ length tw \<longrightarrow>
            QuantumPhaseEstimation_checked mdim U tw ew s =
              (Inl ValueError, s\<lparr>queue := queue s @ [Hadamard (hd ew)],
                                  matmuls := matmuls s + (length ew - 1)\<rparr>))
       \<and> length (squares_sequence U tw ew) = 2 * length ew + 1"
proof (intro conjI impI)
  assume "set tw \<inter> set ew \<noteq> {}"
  then show "QuantumPhaseEstimation_checked mdim U tw ew s = (Inl QuantumFunctionError, s)"
    by (rule QuantumPhaseEstimation_checked_overlap)
next
  assume a: "set tw \<inter> set ew = {} \<and> (ew = [] \<or> mdim U = 2 ^ length tw)"
  show "QuantumPhaseEstimation_checked mdim U tw ew s =
          (Inr (), s\<lparr>queue := queue s @ squares_sequence U tw ew,
                     matmuls := matmuls s + (length ew - 1)\<rparr>)"
    using QuantumPhaseEstimation_checked_accepted[where mdim = mdim, OF assms] a by blast
next
  assume a: "set tw \<inter> set ew = {} \<and> ew \<noteq> [] \<and> mdim U \<noteq> 2 ^ length tw"
  show "QuantumPhaseEstimation_checked mdim U tw ew s =
          (Inl ValueError, s\<lparr>queue := queue s @ [Hadamard (hd ew)],
                              matmuls := matmuls s + (length ew - 1)\<rparr>)"
    using QuantumPhaseEstimation_checked_refused[where mdim = mdim, OF assms] a by blast
next
  show "length (squares_sequence U tw ew) = 2 * length ew + 1"
    by (rule length_squares_sequence)
qed

text \<open>
  The phase gate in a context that already holds one operation: overlapping registers,
  a target register of one wire, and a target register of two wires.
\<close>

theorem checked_outcomes_witness:
  "(\<forall>x :: complex mat2. dim_mat2 (x * x) = dim_mat2 x)
   \<and> QuantumPhaseEstimation_checked dim_mat2 S_gate [0::nat, 1] [1, 2]
        \<lparr>queue = [Hadamard 7], matmuls = 0\<rparr> =
       (Inl QuantumFunctionError, \<lparr>queue = [Hadamard 7], matmuls = 0\<rparr>)
   \<and> QuantumPhaseEstimation_checked dim_mat2 S_gate [0::nat] [1, 2]
        \<lparr>queue = [Hadamard 7], matmuls = 0\<rparr> =
       (Inr (), \<lparr>queue = [Hadamard 7, Hadamard 1, ControlledQubitUnitary Z_gate 1 [0],
                          Hadamard 2, ControlledQubitUnitary S_gate 2 [0], QFT_inv [1, 2]],
                 matmuls = 1\<rparr>)
   \<and> QuantumPhaseEstimation_checked dim_mat2 S_gate [0::nat, 3] [1, 2]
        \<lparr>queue = [Hadamard 7], matmuls = 0\<rparr> =
       (Inl ValueError, \<lparr>queue = [Hadamard 7, Hadamard 1], matmuls = 1\<rparr>)"
proof -
  have h: "\<And>x :: complex mat2. dim_mat2 (x * x) = dim_mat2 x"
    by (simp add: dim_mat2_def)
  show ?thesis
    using h
      checked_outcomes[where mdim = dim_mat2 and U = S_gate and tw = "[0::nat, 1]"
        and ew = "[1::nat, 2]" and s = "\<lparr>queue = [Hadamard 7], matmuls = 0\<rparr>", OF h]
      checked_outcomes[where mdim = dim_mat2 and U = S_gate and tw = "[0::nat]"
        and ew = "[1::nat, 2]" and s = "\<lparr>queue = [Hadamard 7], matmuls = 0\<rparr>", OF h]
      checked_outcomes[where mdim = dim_mat2 and U = S_gate and tw = "[0::nat, 3]"
        and ew = "[1::nat, 2]" and s = "\<lparr>queue = [Hadamard 7], matmuls = 0\<rparr>", OF h]
    by (simp add: dim_mat2_def squares_sequence_def S_gate_powers)
qed

text \<open>
  C7. For a register of \<open>n \<ge> 1\<close> estimation wires, building the ladder evaluates exactly
  \<open>n - 1\<close> matrix products, fewer than \<open>2 ^ n\<close>. Each product squares the largest power so
  far: every entry of the ladder is the square of the entry after it, and the last
  entry is the unitary itself.
\<close>

theorem squaring_count:
  fixes U :: "'u::times"
  assumes "1 \<le> n"
  shows "\<exists>ps. fst (power_ladder U n s) = Inr ps
           \<and> length ps = n
           \<and> last ps = U
           \<and> (\<forall>i. Suc i < n \<longrightarrow> ps ! i = ps ! Suc i * ps ! Suc i)
           \<and> int (matmuls (snd (power_ladder U n s))) = int (matmuls s) + (int n - 1)
           \<and> matmuls (snd (power_ladder U n s)) < matmuls s + 2 ^ n"
proof -
  let ?ps = "map (\<lambda>j. ((\<lambda>x. x * x) ^^ j) U) (rev [0..<n])"
  from assms have n: "max 1 n = n" by simp
  have run: "power_ladder U n s = (Inr ?ps, s\<lparr>matmuls := matmuls s + (n - 1)\<rparr>)"
    using power_ladder_squares[of U n s] unfolding n .
  have "fst (power_ladder U n s) = Inr ?ps"
    by (simp add: run)
  moreover have "length ?ps = n"
    by simp
  moreover have "last ?ps = U"
    using assms by (simp add: last_map last_rev)
  moreover have "\<forall>i. Suc i < n \<longrightarrow> ?ps ! i = ?ps ! Suc i * ?ps ! Suc i"
    using squares_nth by blast
  moreover have "int (matmuls (snd (power_ladder U n s))) = int (matmuls s) + (int n - 1)"
    using assms by (simp add: run)
  moreover have "n - 1 < 2 ^ n"
    by (rule less_imp_diff_less) simp
  then have "matmuls (snd (power_ladder U n s)) < matmuls s + 2 ^ n"
    by (simp add: run)
  ultimately show ?thesis
    by blast
qed

text \<open>Three estimation wires cost two products.\<close>

theorem squaring_count_witness:
  "(1::nat) \<le> 3 \<and>
   (\<exists>ps. fst (power_ladder S_gate 3 \<lparr>queue = ([] :: (complex mat2, nat) operation list), matmuls = 0\<rparr>)
           = Inr ps
      \<and> length ps = 3
      \<and> last ps = S_gate
      \<and> (\<forall>i. Suc i < 3 \<longrightarrow> ps ! i = ps ! Suc i * ps ! Suc i)
      \<and> matmuls (snd (power_ladder S_gate 3
            \<lparr>queue = ([] :: (complex mat2, nat) operation list), matmuls = 0\<rparr>)) = 2)"
  using squaring_count[where U = S_gate and n = 3
          and s = "\<lparr>queue = ([] :: (complex mat2, nat) operation list), matmuls = 0\<rparr>"]
  by (simp add: power_ladder_squares)

text \<open>
  C8. If the unitary is the identity matrix then, for every non-empty estimation register
  that shares no wire with the target register, every controlled unitary that is emitted
  carries the identity matrix. What is left when the controlled unitaries are taken out
  is the Hadamards on the estimation wires followed by the inverse transform.
\<close>

theorem identity_unitary:
  assumes "ew \<noteq> []" and "set tw \<inter> set ew = {}"
  shows "\<exists>ops. build (1::'u::monoid_mult) tw ew = Inr ops
           \<and> ops = concat (map (\<lambda>w. [Hadamard w, ControlledQubitUnitary 1 w tw]) ew) @ [QFT_inv ew]
           \<and> filter (\<lambda>op. \<not> is_controlled op) ops = map Hadamard ew @ [QFT_inv ew]"
  using build_disjoint[OF assms(2), of "1::'u"]
  by (simp add: spec_sequence_one filter_pairs)

text \<open>The identity on target \<open>[0]\<close> and estimation wires \<open>[1, 2]\<close>.\<close>

theorem identity_unitary_witness:
  "[1::nat, 2] \<noteq> [] \<and> set [0::nat] \<inter> set [1, 2] = {}
   \<and> build (1::complex mat2) [0::nat] [1, 2] =
       Inr [Hadamard 1, ControlledQubitUnitary 1 1 [0],
            Hadamard 2, ControlledQubitUnitary 1 2 [0], QFT_inv [1, 2]]"
  using identity_unitary[where 'u = "complex mat2" and tw = "[0::nat]" and ew = "[1::nat, 2]"]
  by simp

text \<open>
  C9. What a call returns and what it appends to the queue depend on the unitary and the
  two registers only, not on the context in which it runs: they are given by \<open>build\<close>,
  a function of these three inputs. The call keeps everything queued before it, and a
  second call with the same inputs right after the first appends the same sequence
  again, so nothing is carried over from one call to the next.
\<close>

theorem context_independent:
  fixes U :: "'u::times"
  shows "fst (QuantumPhaseEstimation U tw ew s) = map_sum id (\<lambda>ops. ()) (build U tw ew)
       \<and> queue (snd (QuantumPhaseEstimation U tw ew s)) =
           queue s @ (case build U tw ew of Inl e \<Rightarrow> [] | Inr ops \<Rightarrow> ops)
       \<and> queue (snd (QuantumPhaseEstimation U tw ew (snd (QuantumPhaseEstimation U tw ew s)))) =
           queue s @ (case build U tw ew of Inl e \<Rightarrow> [] | Inr ops \<Rightarrow> ops)
                   @ (case build U tw ew of Inl e \<Rightarrow> [] | Inr ops \<Rightarrow> ops)"
proof (cases "set tw \<inter> set ew = {}")
  case True
  then show ?thesis
    by (simp add: QuantumPhaseEstimation_squares build_squares)
next
  case False
  then show ?thesis
    by (simp add: QuantumPhaseEstimation_overlap build_overlap)
qed

text \<open>A context that already holds an operation and a count, and two calls in a row.\<close>

theorem context_independent_witness:
  "fst (QuantumPhaseEstimation S_gate [0::nat] [1, 2] \<lparr>queue = [Hadamard 7], matmuls = 3\<rparr>) =
     Inr ()
   \<and> queue (snd (QuantumPhaseEstimation S_gate [0::nat] [1, 2]
                   \<lparr>queue = [Hadamard 7], matmuls = 3\<rparr>)) =
       [Hadamard 7, Hadamard 1, ControlledQubitUnitary Z_gate 1 [0],
        Hadamard 2, ControlledQubitUnitary S_gate 2 [0], QFT_inv [1, 2]]
   \<and> queue (snd (QuantumPhaseEstimation S_gate [0::nat] [1, 2]
              (snd (QuantumPhaseEstimation S_gate [0::nat] [1, 2]
                   \<lparr>queue = [Hadamard 7], matmuls = 3\<rparr>)))) =
       [Hadamard 7, Hadamard 1, ControlledQubitUnitary Z_gate 1 [0],
        Hadamard 2, ControlledQubitUnitary S_gate 2 [0], QFT_inv [1, 2],
        Hadamard 1, ControlledQubitUnitary Z_gate 1 [0],
        Hadamard 2, ControlledQubitUnitary S_gate 2 [0], QFT_inv [1, 2]]
   \<and> build S_gate [0::nat] [1, 2] =
       Inr [Hadamard 1, ControlledQubitUnitary Z_gate 1 [0],
            Hadamard 2, ControlledQubitUnitary S_gate 2 [0], QFT_inv [1, 2]]"
  using context_independent[where U = S_gate and tw = "[0::nat]" and ew = "[1::nat, 2]"
          and s = "\<lparr>queue = [Hadamard 7], matmuls = 3\<rparr>"]
  by (simp add: build_disjoint spec_sequence_def S_gate_powers)

text \<open>
  C10. For an empty estimation register, which shares no wire with any target register,
  the template raises no error. The ladder still holds one matrix, the unitary itself,
  and no product is evaluated. No Hadamard and no controlled unitary is queued: the only
  operation emitted is the inverse Fourier transform on the empty register.
\<close>

theorem empty_estimation_register:
  fixes U :: "'u::times"
  shows "QuantumPhaseEstimation U tw [] s = (Inr (), s\<lparr>queue := queue s @ [QFT_inv []]\<rparr>)
       \<and> power_ladder U (length ([] :: 'w list)) s = (Inr [U], s)
       \<and> build U tw ([] :: 'w list) = Inr [QFT_inv []]"
  by (simp add: QuantumPhaseEstimation_def build_def shared_wires_def power_ladder_def enqueue_def)

text \<open>The phase gate with target \<open>[0]\<close> and no estimation wire.\<close>

theorem empty_estimation_register_witness:
  "QuantumPhaseEstimation S_gate [0::nat] [] \<lparr>queue = [], matmuls = 0\<rparr> =
     (Inr (), \<lparr>queue = [QFT_inv []], matmuls = 0\<rparr>)
   \<and> power_ladder S_gate 0 \<lparr>queue = ([] :: (complex mat2, nat) operation list), matmuls = 0\<rparr> =
       (Inr [S_gate], \<lparr>queue = [], matmuls = 0\<rparr>)
   \<and> build S_gate [0::nat] [] = Inr [QFT_inv []]"
  using empty_estimation_register[where U = S_gate and tw = "[0::nat]"
          and s = "\<lparr>queue = ([] :: (complex mat2, nat) operation list), matmuls = 0\<rparr>"]
  by simp

end
